theory Spec2Isabelle
  imports Main
begin

section \<open>Strings\<close>

text \<open>
  A Go string is a sequence of bytes; it is modelled as a \<open>string\<close> (a list of 8-bit
  characters).  The functions of this section model the operations of the packages
  \<open>strings\<close>, \<open>strconv\<close> and \<open>fmt\<close> that \<open>time_parse.go\<close> calls.
\<close>

definition HasPrefix :: "string \<Rightarrow> string \<Rightarrow> bool" where
  "HasPrefix s p = (take (length p) s = p)"

text \<open>\<open>strings.Index\<close>: the position of the first occurrence, \<open>None\<close> for Go's \<open>-1\<close>.\<close>

fun Index :: "string \<Rightarrow> string \<Rightarrow> nat option" where
  "Index [] p = (if p = [] then Some 0 else None)"
| "Index (c # cs) p =
     (if HasPrefix (c # cs) p then Some 0 else map_option Suc (Index cs p))"

definition Contains :: "string \<Rightarrow> string \<Rightarrow> bool" where
  "Contains s p = (Index s p \<noteq> None)"

text \<open>\<open>strings.Replace(s, old, new, 1)\<close> for a non-empty \<open>old\<close>.\<close>

definition Replace1 :: "string \<Rightarrow> string \<Rightarrow> string \<Rightarrow> string" where
  "Replace1 s old new =
     (case Index s old of
        None \<Rightarrow> s
      | Some i \<Rightarrow> take i s @ new @ drop (i + length old) s)"

text \<open>\<open>strings.TrimPrefix\<close>.\<close>

definition TrimPrefix :: "string \<Rightarrow> string \<Rightarrow> string" where
  "TrimPrefix s p = (if HasPrefix s p then drop (length p) s else s)"


text \<open>
  The encodings of the code points for which \<open>unicode.IsSpace\<close> holds: the six ASCII
  characters, U+0085, U+00A0, U+1680, U+2000 to U+200A, U+2028, U+2029, U+202F, U+205F
  and U+3000.  No encoding is a prefix of another one, and every multi-byte encoding
  starts with a leading byte of UTF-8, so that matching these byte sequences agrees
  with decoding the string rune by rune.
\<close>

definition space_seqs :: "string list" where
  "space_seqs =
     [[CHR 0x09], [CHR 0x0A], [CHR 0x0B], [CHR 0x0C], [CHR 0x0D], [CHR 0x20],
      [CHR 0xC2, CHR 0x85], [CHR 0xC2, CHR 0xA0],
      [CHR 0xE1, CHR 0x9A, CHR 0x80],
      [CHR 0xE2, CHR 0x80, CHR 0x80], [CHR 0xE2, CHR 0x80, CHR 0x81],
      [CHR 0xE2, CHR 0x80, CHR 0x82], [CHR 0xE2, CHR 0x80, CHR 0x83],
      [CHR 0xE2, CHR 0x80, CHR 0x84], [CHR 0xE2, CHR 0x80, CHR 0x85],
      [CHR 0xE2, CHR 0x80, CHR 0x86], [CHR 0xE2, CHR 0x80, CHR 0x87],
      [CHR 0xE2, CHR 0x80, CHR 0x88], [CHR 0xE2, CHR 0x80, CHR 0x89],
      [CHR 0xE2, CHR 0x80, CHR 0x8A],
      [CHR 0xE2, CHR 0x80, CHR 0xA8], [CHR 0xE2, CHR 0x80, CHR 0xA9],
      [CHR 0xE2, CHR 0x80, CHR 0xAF], [CHR 0xE2, CHR 0x81, CHR 0x9F],
      [CHR 0xE3, CHR 0x80, CHR 0x80]]"

text \<open>The number of bytes of the white space rune at the head of the string, 0 if there is none.\<close>

definition space_len :: "string list \<Rightarrow> string \<Rightarrow> nat" where
  "space_len seqs s = (case find (HasPrefix s) seqs of None \<Rightarrow> 0 | Some p \<Rightarrow> length p)"

function TrimLeftSeqs :: "string list \<Rightarrow> string \<Rightarrow> string" where
  "TrimLeftSeqs seqs s =
     (if space_len seqs s = 0 \<or> s = [] then s
      else TrimLeftSeqs seqs (drop (space_len seqs s) s))"
  by pat_completeness auto
termination
  by (relation "measure (\<lambda>(seqs, s). length s)") auto

declare TrimLeftSeqs.simps [simp del]

text \<open>\<open>strings.TrimSpace\<close>: white space runes are cut at the left, then at the right.\<close>

definition TrimSpace :: "string \<Rightarrow> string" where
  "TrimSpace s =
     rev (TrimLeftSeqs (map rev space_seqs) (rev (TrimLeftSeqs space_seqs s)))"

text \<open>
  \<open>strings.Join(strings.Fields(s), "")\<close>: the string without its white space runes.
\<close>

function RemoveSpace :: "string \<Rightarrow> string" where
  "RemoveSpace s =
     (case s of
        [] \<Rightarrow> []
      | c # cs \<Rightarrow>
          (if space_len space_seqs s = 0 then c # RemoveSpace cs
           else RemoveSpace (drop (space_len space_seqs s) s)))"
  by pat_completeness auto
termination
  by (relation "measure length") auto

declare RemoveSpace.simps [simp del]

text \<open>\<open>strings.ReplaceAll(s, " ", "")\<close>.\<close>

definition RemoveBlanks :: "string \<Rightarrow> string" where
  "RemoveBlanks s = filter (\<lambda>c. c \<noteq> CHR '' '') s"

text \<open>
  \<open>strings.ToLower\<close>.  An ASCII capital letter becomes the small one.  Outside ASCII,
  three code points have a lower-case image that the program can tell from the
  original: the Kelvin sign U+212A becomes \<open>k\<close>, U+0130 becomes \<open>i\<close> (both may complete
  a keyword), and the Greek capital Mu U+039C becomes U+03BC (the micro sign of a
  duration unit).  The images of all other code points, and the replacement character
  that stands for an invalid byte, are outside ASCII and are no part of any string the
  program compares with; these bytes are kept as they are.
\<close>

definition lower_ascii :: "char \<Rightarrow> char" where
  "lower_ascii c =
     (if 65 \<le> (of_char c :: nat) \<and> (of_char c :: nat) \<le> 90
      then char_of ((of_char c :: nat) + 32) else c)"

fun ToLower :: "string \<Rightarrow> string" where
  "ToLower (a # b # c # cs) =
     (if a = CHR 0xE2 \<and> b = CHR 0x84 \<and> c = CHR 0xAA then CHR ''k'' # ToLower cs
      else if a = CHR 0xC4 \<and> b = CHR 0xB0 then CHR ''i'' # ToLower (c # cs)
      else if a = CHR 0xCE \<and> b = CHR 0x9C then CHR 0xCE # CHR 0xBC # ToLower (c # cs)
      else lower_ascii a # ToLower (b # c # cs))"
| "ToLower [a, b] =
     (if a = CHR 0xC4 \<and> b = CHR 0xB0 then [CHR ''i'']
      else if a = CHR 0xCE \<and> b = CHR 0x9C then [CHR 0xCE, CHR 0xBC]
      else [lower_ascii a, lower_ascii b])"
| "ToLower [a] = [lower_ascii a]"
| "ToLower [] = []"

definition isDigit :: "char \<Rightarrow> bool" where
  "isDigit c = (48 \<le> (of_char c :: nat) \<and> (of_char c :: nat) \<le> 57)"

definition digit_val :: "char \<Rightarrow> nat" where
  "digit_val c = (of_char c :: nat) - 48"

text \<open>The value of a string of decimal digits, read from the left.\<close>

fun dec_val :: "nat \<Rightarrow> string \<Rightarrow> nat" where
  "dec_val acc [] = acc"
| "dec_val acc (c # cs) = dec_val (acc * 10 + digit_val c) cs"

text \<open>
  \<open>strconv.ParseInt(s, 10, 64)\<close>: an optional sign and at least one digit, nothing
  else; the value has to fit into 64 bits.  \<open>None\<close> stands for either error of Go
  (syntax or range): the program only tests that there is none.
\<close>

definition ParseInt :: "string \<Rightarrow> int option" where
  "ParseInt s =
     (let neg = (s \<noteq> [] \<and> hd s = CHR ''-'');
          ds = (if s \<noteq> [] \<and> (hd s = CHR ''+'' \<or> hd s = CHR ''-'') then tl s else s)
      in if ds = [] \<or> \<not> list_all isDigit ds then None
         else if neg then
           (if dec_val 0 ds \<le> 2 ^ 63 then Some (- int (dec_val 0 ds)) else None)
         else
           (if dec_val 0 ds < 2 ^ 63 then Some (int (dec_val 0 ds)) else None))"

section \<open>Scanning and printing integers\<close>

text \<open>Go's \<open>int\<close> has 64 bits here; arithmetic wraps around.\<close>

definition wrap64 :: "int \<Rightarrow> int" where
  "wrap64 x = (x + 2 ^ 63) mod 2 ^ 64 - 2 ^ 63"

text \<open>
  \<open>SkipSpace\<close> of package \<open>fmt\<close>, as \<open>Sscanf\<close> runs it before a \<open>%d\<close>: white space
  runes are skipped, and a newline among them is an error.
\<close>

function SkipSpace :: "string \<Rightarrow> string option" where
  "SkipSpace s =
     (if HasPrefix s [CHR 0x0A] then None
      else if space_len space_seqs s = 0 \<or> s = [] then Some s
      else SkipSpace (drop (space_len space_seqs s) s))"
  by pat_completeness auto
termination
  by (relation "measure length") auto

declare SkipSpace.simps [simp del]

text \<open>
  \<open>fmt.Sscanf(s, "%d", &amount)\<close> and \<open>fmt.Sscanf(s, "%dd", &amount)\<close>: the number of
  items scanned is 1 exactly when an integer is read at the head of the input, whatever
  follows it in the input or in the format.  The result is the integer, \<open>None\<close> when the
  count is 0.  The integer is an optional sign and the longest run of digits after it,
  which has to be non-empty and has to fit into 64 bits.
\<close>

definition Sscanf_d :: "string \<Rightarrow> int option" where
  "Sscanf_d s =
     (case SkipSpace s of
        None \<Rightarrow> None
      | Some r \<Rightarrow>
          (let sign = (if r \<noteq> [] \<and> (hd r = CHR ''+'' \<or> hd r = CHR ''-'') then [hd r] else []);
               r' = drop (length sign) r;
               ds = takeWhile isDigit r'
           in if ds = [] then None else ParseInt (sign @ ds)))"

text \<open>\<open>fmt.Sprintf("%d", n)\<close>.\<close>

fun digits_of :: "nat \<Rightarrow> string" where
  "digits_of n =
     (if n < 10 then [char_of (48 + n)]
      else digits_of (n div 10) @ [char_of (48 + n mod 10)])"

declare digits_of.simps [simp del]

definition Sprintf_d :: "int \<Rightarrow> string" where
  "Sprintf_d n = (if n < 0 then CHR ''-'' # digits_of (nat (- n)) else digits_of (nat n))"

section \<open>Unit normalization\<close>

datatype error =
    ErrInvalidTimeFormat
  | ErrInvalidTimeRange
  | ErrInvalidStartTime error
  | ErrInvalidEndTime error
  | ErrInvalidWeekday string
  | ErrEndBeforeStart
  | ErrParseDuration
  | ErrConvertUnits error

record unitConversion =
  patterns :: "string list"
  toHours :: int

record simpleUnit =
  spatterns :: "string list"
  to :: string

definition timeUnitsToHours :: "unitConversion list" where
  "timeUnitsToHours =
     [\<lparr>patterns = [''years'', ''year''], toHours = 8760\<rparr>,
      \<lparr>patterns = [''months'', ''month''], toHours = 720\<rparr>,
      \<lparr>patterns = [''days'', ''day''], toHours = 24\<rparr>]"

definition simpleTimeUnits :: "simpleUnit list" where
  "simpleTimeUnits =
     [\<lparr>spatterns = [''seconds'', ''second'', ''sec''], to = ''s''\<rparr>,
      \<lparr>spatterns = [''minutes'', ''minute'', ''min''], to = ''m''\<rparr>,
      \<lparr>spatterns = [''hours'', ''hour''], to = ''h''\<rparr>]"

definition reservedKeywords :: "string list" where
  "reservedKeywords =
     [''sunday'', ''monday'', ''tuesday'', ''wednesday'', ''thursday'', ''friday'',
      ''saturday'', ''yesterday'', ''last week'', ''last month'', ''last year'']"

definition isLetter :: "char \<Rightarrow> bool" where
  "isLetter r =
     ((97 \<le> (of_char r :: nat) \<and> (of_char r :: nat) \<le> 122) \<or>
      (65 \<le> (of_char r :: nat) \<and> (of_char r :: nat) \<le> 90))"

text \<open>
  One of the two attempts of \<open>tryConvertUnit\<close> and of \<open>tryConvertSimpleUnit\<close>: the
  pattern \<open>pat\<close> is looked for, the text before it is scanned for an amount, and the
  character after it must not be a letter.  \<open>render\<close> prints the converted amount.
\<close>

definition tryPattern :: "string \<Rightarrow> string \<Rightarrow> (int \<Rightarrow> string) \<Rightarrow> string option" where
  "tryPattern timeStr pat render =
     (case Index timeStr pat of
        None \<Rightarrow> None
      | Some idx \<Rightarrow>
          if idx = 0 then None
          else (case Sscanf_d (take idx timeStr) of
                  None \<Rightarrow> None
                | Some amount \<Rightarrow>
                    if amount < 0 then None
                    else (let endIdx = idx + length pat
                          in if endIdx \<ge> length timeStr \<or> \<not> isLetter (timeStr ! endIdx)
                             then Some (render amount @ drop endIdx timeStr)
                             else None)))"

definition tryConvertUnit :: "string \<Rightarrow> string \<Rightarrow> int \<Rightarrow> string option" where
  "tryConvertUnit timeStr pattern toH =
     (let render = (\<lambda>amount. Sprintf_d (wrap64 (amount * toH)) @ ''h'')
      in case tryPattern timeStr ('' '' @ pattern) render of
           Some r \<Rightarrow> Some r
         | None \<Rightarrow> tryPattern timeStr pattern render)"

definition tryConvertSimpleUnit :: "string \<Rightarrow> string \<Rightarrow> string \<Rightarrow> string option" where
  "tryConvertSimpleUnit timeStr pattern t =
     (let render = (\<lambda>amount. Sprintf_d amount @ t)
      in case tryPattern timeStr ('' '' @ pattern) render of
           Some r \<Rightarrow> Some r
         | None \<Rightarrow> tryPattern timeStr pattern render)"

text \<open>\<open>tryConvertShortForm\<close>; \<open>None\<close> stands for the empty string that the source returns.\<close>

definition tryConvertShortForm :: "string \<Rightarrow> string \<Rightarrow> int \<Rightarrow> string \<Rightarrow> string option" where
  "tryConvertShortForm timeStr shortForm toH longForm =
     (if \<not> Contains timeStr shortForm \<or> Contains timeStr longForm then None
      else (case Sscanf_d timeStr of
              None \<Rightarrow> None
            | Some amount \<Rightarrow>
                if amount < 0 then None
                else (let target = Sprintf_d amount @ shortForm
                      in case Index timeStr target of
                           None \<Rightarrow> None
                         | Some idx \<Rightarrow>
                             (let endIdx = idx + length target
                              in if endIdx \<ge> length timeStr \<or> \<not> isLetter (timeStr ! endIdx)
                                 then (let r = Replace1 timeStr target
                                                 (Sprintf_d (wrap64 (amount * toH)) @ ''h'')
                                       in if r = [] then None else Some r)
                                 else None))))"

text \<open>The first pattern, in the order of the table, that converts.\<close>

fun firstSome :: "('a \<Rightarrow> 'b option) \<Rightarrow> 'a list \<Rightarrow> 'b option" where
  "firstSome f [] = None"
| "firstSome f (x # xs) = (case f x of Some r \<Rightarrow> Some r | None \<Rightarrow> firstSome f xs)"

definition convertCustomUnits :: "string \<Rightarrow> error + string" where
  "convertCustomUnits timeStr =
     (if list_ex (Contains (ToLower timeStr)) reservedKeywords then Inr timeStr
      else case firstSome (\<lambda>conv. firstSome (\<lambda>pattern. tryConvertUnit timeStr pattern (toHours conv))
                                     (patterns conv)) timeUnitsToHours of
             Some converted \<Rightarrow> Inr converted
           | None \<Rightarrow>
               (case tryConvertShortForm timeStr ''d'' 24 ''day'' of
                  Some result \<Rightarrow> Inr result
                | None \<Rightarrow>
                    (case tryConvertShortForm timeStr ''y'' 8760 ''year'' of
                       Some result \<Rightarrow> Inr result
                     | None \<Rightarrow>
                         (case firstSome (\<lambda>conv. firstSome (\<lambda>pattern. tryConvertSimpleUnit timeStr pattern (to conv))
                                                    (spatterns conv)) simpleTimeUnits of
                            Some converted \<Rightarrow> Inr converted
                          | None \<Rightarrow> Inr timeStr))))"

section \<open>Instants and the calendar\<close>

text \<open>
  A \<open>time.Time\<close> is modelled by the seconds since the Unix epoch, the nanoseconds
  within the second (from 0 to 999999999) and the location, which is a fixed offset in
  seconds east of UTC: zones whose offset changes are not modelled, nor is the monotonic
  clock reading.  Seconds are unbounded integers (Go's \<open>int64\<close> seconds cover about
  292 billion years around year 1).
\<close>

record Time =
  unix :: int
  nsec :: int
  loc :: int

text \<open>
  What the package \<open>time\<close> takes from outside the program: the offset of the location
  \<open>time.Local\<close>, which \<open>time.Unix\<close> gives to its result, and the result of the
  floating-point expression \<open>uint64(float64(f) * (float64(unit) / scale))\<close> by which
  \<open>time.ParseDuration\<close> converts the digits \<open>f\<close> after a decimal point.
\<close>

record env =
  Local :: int
  frac :: "nat \<Rightarrow> nat \<Rightarrow> nat \<Rightarrow> nat"

text \<open>The zero value \<open>time.Time{}\<close>: 1 January of year 1, 00:00:00 UTC.\<close>

definition zeroTime :: Time where
  "zeroTime = \<lparr>unix = - 62135596800, nsec = 0, loc = 0\<rparr>"

definition IsZero :: "Time \<Rightarrow> bool" where
  "IsZero t = (unix t = - 62135596800 \<and> nsec t = 0)"


definition time_Unix :: "env \<Rightarrow> int \<Rightarrow> int \<Rightarrow> Time" where
  "time_Unix e sec ns =
     \<lparr>unix = sec + ns div 1000000000, nsec = ns mod 1000000000, loc = Local e\<rparr>"

text \<open>\<open>t.Add(d)\<close> for a duration of \<open>d\<close> nanoseconds.\<close>

definition Add :: "Time \<Rightarrow> int \<Rightarrow> Time" where
  "Add t d =
     t\<lparr>unix := unix t + (nsec t + d) div 1000000000,
       nsec := (nsec t + d) mod 1000000000\<rparr>"

definition isLeap :: "int \<Rightarrow> bool" where
  "isLeap y = (y mod 4 = 0 \<and> (y mod 100 \<noteq> 0 \<or> y mod 400 = 0))"

text \<open>The days from 1 January 1970 to 1 January of the year \<open>y\<close>.\<close>

definition daysToYear :: "int \<Rightarrow> int" where
  "daysToYear y =
     365 * (y - 1970) + ((y - 1) div 4 - (y - 1) div 100 + (y - 1) div 400) - 477"

definition daysBefore :: "int list" where
  "daysBefore = [0, 31, 59, 90, 120, 151, 181, 212, 243, 273, 304, 334, 365]"

text \<open>The days of the year before the month \<open>m\<close> (from 1 to 12).\<close>

definition monthStart :: "bool \<Rightarrow> int \<Rightarrow> int" where
  "monthStart leap m = daysBefore ! nat (m - 1) + (if leap \<and> 3 \<le> m then 1 else 0)"

definition daysIn :: "int \<Rightarrow> int \<Rightarrow> int" where
  "daysIn m y =
     (if m = 2 \<and> isLeap y then 29 else daysBefore ! nat m - daysBefore ! nat (m - 1))"

text \<open>
  \<open>time.Date\<close>: the month is normalized into the year; days, hours, minutes, seconds
  and nanoseconds out of their ranges carry over.
\<close>

definition Date :: "int \<Rightarrow> int \<Rightarrow> int \<Rightarrow> int \<Rightarrow> int \<Rightarrow> int \<Rightarrow> int \<Rightarrow> int \<Rightarrow> Time" where
  "Date y m d h mi s ns l =
     (let y' = y + (m - 1) div 12;
          m' = (m - 1) mod 12 + 1;
          days = daysToYear y' + monthStart (isLeap y') m' + (d - 1)
      in \<lparr>unix = days * 86400 + h * 3600 + mi * 60 + s + ns div 1000000000 - l,
          nsec = ns mod 1000000000,
          loc = l\<rparr>)"

text \<open>
  The civil date of a day, counted from 1 January 1970: the year and the day of the
  year, by cycles of 400, 100, 4 and 1 years.
\<close>

definition yearDay :: "int \<Rightarrow> int \<times> int" where
  "yearDay z =
     (let d0 = z + 719162;
          n400 = d0 div 146097;
          d1 = d0 mod 146097;
          c = d1 div 36524;
          n100 = c - c div 4;
          d2 = d1 - 36524 * n100;
          n4 = d2 div 1461;
          d3 = d2 mod 1461;
          k = d3 div 365;
          n1 = k - k div 4
      in (1 + 400 * n400 + 100 * n100 + 4 * n4 + n1, d3 - 365 * n1))"

definition monthOf :: "bool \<Rightarrow> int \<Rightarrow> int" where
  "monthOf leap yday = int (length (filter (\<lambda>m. monthStart leap m \<le> yday) [1, 2, 3, 4, 5, 6, 7, 8, 9, 10, 11, 12]))"

definition absDay :: "Time \<Rightarrow> int" where
  "absDay t = (unix t + loc t) div 86400"

definition daySecs :: "Time \<Rightarrow> int" where
  "daySecs t = (unix t + loc t) mod 86400"

definition Year :: "Time \<Rightarrow> int" where
  "Year t = fst (yearDay (absDay t))"

definition Month :: "Time \<Rightarrow> int" where
  "Month t = monthOf (isLeap (Year t)) (snd (yearDay (absDay t)))"

definition Day :: "Time \<Rightarrow> int" where
  "Day t = snd (yearDay (absDay t)) - monthStart (isLeap (Year t)) (Month t) + 1"

definition Hour :: "Time \<Rightarrow> int" where
  "Hour t = daySecs t div 3600"

definition Minute :: "Time \<Rightarrow> int" where
  "Minute t = daySecs t mod 3600 div 60"

definition Second :: "Time \<Rightarrow> int" where
  "Second t = daySecs t mod 60"

text \<open>\<open>t.Weekday()\<close>, Sunday being 0: 1 January 1970 was a Thursday.\<close>

definition Weekday :: "Time \<Rightarrow> int" where
  "Weekday t = (absDay t + 4) mod 7"

definition AddDate :: "Time \<Rightarrow> int \<Rightarrow> int \<Rightarrow> int \<Rightarrow> Time" where
  "AddDate t years months days =
     Date (Year t + years) (Month t + months) (Day t + days)
          (Hour t) (Minute t) (Second t) (nsec t) (loc t)"

section \<open>Durations\<close>

text \<open>
  \<open>leadingInt\<close> of package \<open>time\<close>: the digits at the head of the string, with their
  value added to \<open>x\<close>; \<open>None\<close> when the value passes \<open>1 << 63\<close>.
\<close>

fun leadingInt :: "nat \<Rightarrow> string \<Rightarrow> (nat \<times> string) option" where
  "leadingInt x [] = Some (x, [])"
| "leadingInt x (c # cs) =
     (if \<not> isDigit c then Some (x, c # cs)
      else if x > 2 ^ 63 div 10 then None
      else if x * 10 + digit_val c > 2 ^ 63 then None
      else leadingInt (x * 10 + digit_val c) cs)"

text \<open>
  \<open>leadingFraction\<close>: the digits after the decimal point and their scale; digits beyond
  the precision of 64 bits are dropped.
\<close>

fun leadingFraction :: "nat \<Rightarrow> nat \<Rightarrow> bool \<Rightarrow> string \<Rightarrow> nat \<times> nat \<times> string" where
  "leadingFraction x scale overflow [] = (x, scale, [])"
| "leadingFraction x scale overflow (c # cs) =
     (if \<not> isDigit c then (x, scale, c # cs)
      else if overflow then leadingFraction x scale True cs
      else if x > (2 ^ 63 - 1) div 10 then leadingFraction x scale True cs
      else if x * 10 + digit_val c > 2 ^ 63 then leadingFraction x scale True cs
      else leadingFraction (x * 10 + digit_val c) (scale * 10) False cs)"

definition unitMap :: "string \<Rightarrow> nat option" where
  "unitMap u =
     (if u = ''ns'' then Some 1
      else if u = ''us'' then Some 1000
      else if u = [CHR 0xC2, CHR 0xB5, CHR ''s''] then Some 1000
      else if u = [CHR 0xCE, CHR 0xBC, CHR ''s''] then Some 1000
      else if u = ''ms'' then Some 1000000
      else if u = ''s'' then Some 1000000000
      else if u = ''m'' then Some 60000000000
      else if u = ''h'' then Some 3600000000000
      else None)"

text \<open>
  One pass of the loop of \<open>time.ParseDuration\<close>: a number, an optional fraction and a
  unit are read at the head of \<open>s\<close>.  The result is the value in nanoseconds and the
  rest of the string; \<open>None\<close> is the error.
\<close>

definition durationTerm :: "env \<Rightarrow> string \<Rightarrow> (nat \<times> string) option" where
  "durationTerm e s =
     (if \<not> (hd s = CHR ''.'' \<or> isDigit (hd s)) then None
      else case leadingInt 0 s of
        None \<Rightarrow> None
      | Some (v, s1) \<Rightarrow>
          (let pre = (length s \<noteq> length s1);
               dot = (s1 \<noteq> [] \<and> hd s1 = CHR ''.'');
               (f, scale, s2) = (if dot then leadingFraction 0 1 False (tl s1) else (0, 1, s1));
               post = (dot \<and> length (tl s1) \<noteq> length s2);
               u = takeWhile (\<lambda>c. \<not> (c = CHR ''.'' \<or> isDigit c)) s2;
               s3 = dropWhile (\<lambda>c. \<not> (c = CHR ''.'' \<or> isDigit c)) s2
           in if \<not> pre \<and> \<not> post then None
              else if u = [] then None
              else case unitMap u of
                None \<Rightarrow> None
              | Some unit \<Rightarrow>
                  if v > 2 ^ 63 div unit then None
                  else (let v' = (if f > 0 then v * unit + frac e f unit scale else v * unit)
                        in if f > 0 \<and> v' > 2 ^ 63 then None else Some (v', s3))))"

text \<open>
  The loop of \<open>time.ParseDuration\<close>: the terms are added up in 64 bits without a
  sign, where the sum of two values of \<open>1 << 63\<close> wraps around to 0.
\<close>

function durationLoop :: "env \<Rightarrow> nat \<Rightarrow> string \<Rightarrow> nat option" where
  "durationLoop e d s =
     (if s = [] then Some d
      else case durationTerm e s of
        None \<Rightarrow> None
      | Some (v, rest) \<Rightarrow>
          if (d + v) mod 2 ^ 64 > 2 ^ 63 then None
          else durationLoop e ((d + v) mod 2 ^ 64) rest)"
  by pat_completeness auto
termination
proof (relation "measure (\<lambda>(e, d, s). length s)")
  show "wf (measure (\<lambda>(e, d, s). length s))"
    by simp
next
  fix e :: env and d :: nat and s :: string and x2 :: "nat \<times> string" and v :: nat and rest :: string
  assume ne: "s \<noteq> []" and t: "durationTerm e s = Some x2" and x2: "(v, rest) = x2"
  have li: "leadingInt x a = Some (w, r) \<Longrightarrow> length r \<le> length a" for x a w r
    by (induction x a rule: leadingInt.induct) (auto split: if_splits)
  have lf: "leadingFraction x sc ov a = (w, sc', r) \<Longrightarrow> length r \<le> length a" for x sc ov a w sc' r
    by (induction x sc ov a rule: leadingFraction.induct) (auto split: if_splits)
  obtain v1 s1 where l1: "leadingInt 0 s = Some (v1, s1)"
    using t by (auto simp: durationTerm_def split: if_splits option.splits)
  define dot where "dot = (s1 \<noteq> [] \<and> hd s1 = CHR ''.'')"
  obtain f scale s2 where l2:
    "(if dot then leadingFraction 0 1 False (tl s1) else (0, 1, s1)) = (f, scale, s2)"
    by (metis prod_cases3)
  have s2: "length s2 \<le> length s1"
  proof (cases dot)
    case True
    then have "leadingFraction 0 1 False (tl s1) = (f, scale, s2)" using l2 by simp
    then have "length s2 \<le> length (tl s1)" by (rule lf)
    then show ?thesis by simp
  next
    case False
    then show ?thesis using l2 by simp
  qed
  define u where "u = takeWhile (\<lambda>c. \<not> (c = CHR ''.'' \<or> isDigit c)) s2"
  have "u \<noteq> [] \<and> rest = dropWhile (\<lambda>c. \<not> (c = CHR ''.'' \<or> isDigit c)) s2"
    using t x2 l1 l2
    by (auto simp: durationTerm_def Let_def dot_def u_def split: if_splits option.splits)
  then have "length rest < length s2"
    unfolding u_def
    by (metis (no_types, lifting) append_Nil length_append length_greater_0_conv
        less_add_same_cancel2 takeWhile_dropWhile_id)
  moreover have "length s1 \<le> length s" using l1 li by blast
  ultimately show "((e, (d + v) mod 2 ^ 64, rest), (e, d, s)) \<in> measure (\<lambda>(e, d, s). length s)"
    using s2 by simp
qed

declare durationLoop.simps [simp del]

text \<open>\<open>time.ParseDuration\<close>: the duration in nanoseconds; \<open>None\<close> is the error.\<close>

definition ParseDuration :: "env \<Rightarrow> string \<Rightarrow> int option" where
  "ParseDuration e s0 =
     (let neg = (s0 \<noteq> [] \<and> hd s0 = CHR ''-'');
          s = (if s0 \<noteq> [] \<and> (hd s0 = CHR ''-'' \<or> hd s0 = CHR ''+'') then tl s0 else s0)
      in if s = ''0'' then Some 0
         else if s = [] then None
         else case durationLoop e 0 s of
           None \<Rightarrow> None
         | Some d \<Rightarrow>
             if neg then Some (- int d)
             else if d > 2 ^ 63 - 1 then None
             else Some (int d))"

section \<open>Clock times and calendar dates\<close>

text \<open>
  \<open>time.Parse\<close> reads a value along a layout.  A layout is modelled by the list of its
  elements, as \<open>nextStdChunk\<close> cuts it: literal text and the standard elements that the
  layouts of the program use.
\<close>

datatype chunk =
    Lit string
  | stdYear
  | stdLongYear
  | stdZeroMonth
  | stdZeroDay
  | stdHour
  | stdZeroMinute
  | stdZeroSecond
  | stdWeekDay
  | stdMonth

record parsed =
  pYear :: int
  pMonth :: int
  pDay :: int
  pHour :: int
  pMin :: int
  pSec :: int
  pNsec :: int

definition cutspace :: "string \<Rightarrow> string" where
  "cutspace s = dropWhile (\<lambda>c. c = CHR '' '') s"

text \<open>
  \<open>skip\<close>: the literal text of the layout is removed from the head of the value; a
  space of the layout stands for any number of spaces of the value.
\<close>

function skip :: "string \<Rightarrow> string \<Rightarrow> string option" where
  "skip v [] = Some v"
| "skip v (p # ps) =
     (if p = CHR '' '' then
        (if v \<noteq> [] \<and> hd v \<noteq> CHR '' '' then None
         else skip (cutspace v) (cutspace ps))
      else if v = [] \<or> hd v \<noteq> p then None
      else skip (tl v) ps)"
  by pat_completeness auto
termination
  by (relation "measure (\<lambda>(v, p). length p)")
     (auto simp: cutspace_def less_Suc_eq_le length_dropWhile_le)

text \<open>\<open>getnum\<close>: a number of two digits, or of one digit when the width is not fixed.\<close>

definition getnum :: "string \<Rightarrow> bool \<Rightarrow> (int \<times> string) option" where
  "getnum s fixed =
     (if s = [] \<or> \<not> isDigit (s ! 0) then None
      else if length s < 2 \<or> \<not> isDigit (s ! 1) then
        (if fixed then None else Some (int (digit_val (s ! 0)), drop 1 s))
      else Some (int (digit_val (s ! 0) * 10 + digit_val (s ! 1)), drop 2 s))"

text \<open>\<open>atoi\<close> of package \<open>time\<close>: an optional sign, then digits only.\<close>

definition atoi :: "string \<Rightarrow> int option" where
  "atoi s0 =
     (let neg = (s0 \<noteq> [] \<and> hd s0 = CHR ''-'');
          s = (if s0 \<noteq> [] \<and> (hd s0 = CHR ''-'' \<or> hd s0 = CHR ''+'') then tl s0 else s0)
      in case leadingInt 0 s of
           None \<Rightarrow> None
         | Some (q, rem) \<Rightarrow>
             if rem \<noteq> [] then None else Some (if neg then - int q else int q))"

text \<open>\<open>match\<close>: equality of two strings of the same length, ASCII letters compared without case.\<close>

definition or32 :: "char \<Rightarrow> nat" where
  "or32 c = (if (of_char c :: nat) div 32 mod 2 = 0 then of_char c + 32 else of_char c)"

definition matchName :: "string \<Rightarrow> string \<Rightarrow> bool" where
  "matchName s1 s2 =
     list_all2 (\<lambda>c1 c2. c1 = c2 \<or> (or32 c1 = or32 c2 \<and> 97 \<le> or32 c1 \<and> or32 c1 \<le> 122)) s1 s2"

text \<open>\<open>lookup\<close>: the index of the first name of the table that starts the value.\<close>

fun lookup :: "string list \<Rightarrow> int \<Rightarrow> string \<Rightarrow> (int \<times> string) option" where
  "lookup [] i val = None"
| "lookup (v # tab) i val =
     (if length val \<ge> length v \<and> matchName (take (length v) val) v
      then Some (i, drop (length v) val)
      else lookup tab (i + 1) val)"

definition shortDayNames :: "string list" where
  "shortDayNames = [''Sun'', ''Mon'', ''Tue'', ''Wed'', ''Thu'', ''Fri'', ''Sat'']"

definition shortMonthNames :: "string list" where
  "shortMonthNames =
     [''Jan'', ''Feb'', ''Mar'', ''Apr'', ''May'', ''Jun'',
      ''Jul'', ''Aug'', ''Sep'', ''Oct'', ''Nov'', ''Dec'']"

text \<open>
  The fraction of a second that may follow the seconds in the value though the layout
  has none: a period or a comma and digits, of which nine count.
\<close>

definition fracSecond :: "string \<Rightarrow> (int \<times> string) option" where
  "fracSecond v =
     (if length v \<ge> 2 \<and> (v ! 0 = CHR ''.'' \<or> v ! 0 = CHR '','') \<and> isDigit (v ! 1) then
        (let n = 2 + length (takeWhile isDigit (drop 2 v));
             nbytes = min n 10
         in case atoi (take (nbytes - 1) (drop 1 v)) of
              None \<Rightarrow> None
            | Some ns \<Rightarrow> if ns < 0 then None else Some (ns * 10 ^ (10 - nbytes), drop n v))
      else Some (0, v))"

text \<open>One element of the layout; \<open>None\<close> is a parse error or a value out of range.\<close>

fun parseChunk :: "chunk \<Rightarrow> parsed \<times> string \<Rightarrow> (parsed \<times> string) option" where
  "parseChunk (Lit p) (st, v) = map_option (\<lambda>v'. (st, v')) (skip v p)"
| "parseChunk stdYear (st, v) =
     (if length v < 2 then None
      else case atoi (take 2 v) of
             None \<Rightarrow> None
           | Some y \<Rightarrow> Some (st\<lparr>pYear := (if y \<ge> 69 then y + 1900 else y + 2000)\<rparr>, drop 2 v))"
| "parseChunk stdLongYear (st, v) =
     (if length v < 4 \<or> \<not> isDigit (v ! 0) then None
      else case atoi (take 4 v) of
             None \<Rightarrow> None
           | Some y \<Rightarrow> Some (st\<lparr>pYear := y\<rparr>, drop 4 v))"
| "parseChunk stdMonth (st, v) =
     (case lookup shortMonthNames 0 v of
        None \<Rightarrow> None
      | Some (i, v') \<Rightarrow> Some (st\<lparr>pMonth := i + 1\<rparr>, v'))"
| "parseChunk stdZeroMonth (st, v) =
     (case getnum v True of
        None \<Rightarrow> None
      | Some (m, v') \<Rightarrow> if m \<le> 0 \<or> 12 < m then None else Some (st\<lparr>pMonth := m\<rparr>, v'))"
| "parseChunk stdWeekDay (st, v) =
     (case lookup shortDayNames 0 v of
        None \<Rightarrow> None
      | Some (i, v') \<Rightarrow> Some (st, v'))"
| "parseChunk stdZeroDay (st, v) =
     (case getnum v True of
        None \<Rightarrow> None
      | Some (d, v') \<Rightarrow> Some (st\<lparr>pDay := d\<rparr>, v'))"
| "parseChunk stdHour (st, v) =
     (case getnum v False of
        None \<Rightarrow> None
      | Some (h, v') \<Rightarrow> if h < 0 \<or> 24 \<le> h then None else Some (st\<lparr>pHour := h\<rparr>, v'))"
| "parseChunk stdZeroMinute (st, v) =
     (case getnum v True of
        None \<Rightarrow> None
      | Some (m, v') \<Rightarrow> if m < 0 \<or> 60 \<le> m then None else Some (st\<lparr>pMin := m\<rparr>, v'))"
| "parseChunk stdZeroSecond (st, v) =
     (case getnum v True of
        None \<Rightarrow> None
      | Some (s, v') \<Rightarrow>
          if s < 0 \<or> 60 \<le> s then None
          else (case fracSecond v' of
                  None \<Rightarrow> None
                | Some (ns, v'') \<Rightarrow> Some (st\<lparr>pSec := s, pNsec := ns\<rparr>, v'')))"

fun parseChunks :: "chunk list \<Rightarrow> parsed \<times> string \<Rightarrow> (parsed \<times> string) option" where
  "parseChunks [] sv = Some sv"
| "parseChunks (c # cs) sv =
     (case parseChunk c sv of None \<Rightarrow> None | Some sv' \<Rightarrow> parseChunks cs sv')"

text \<open>
  \<open>time.Parse(layout, value)\<close>: the whole value has to be read, and the day has to
  exist in its month.  Without a zone in the layout the result is in UTC.
\<close>

definition time_Parse :: "chunk list \<Rightarrow> string \<Rightarrow> Time option" where
  "time_Parse layout val =
     (case parseChunks layout
             (\<lparr>pYear = 0, pMonth = - 1, pDay = - 1, pHour = 0, pMin = 0, pSec = 0, pNsec = 0\<rparr>, val) of
        None \<Rightarrow> None
      | Some (st, rest) \<Rightarrow>
          if rest \<noteq> [] then None
          else (let month = (if pMonth st < 0 then 1 else pMonth st);
                    day = (if pDay st < 0 then 1 else pDay st)
                in if day < 1 \<or> day > daysIn month (pYear st) then None
                   else Some (Date (pYear st) month day (pHour st) (pMin st) (pSec st) (pNsec st) 0)))"

text \<open>The layouts \<open>15:04\<close>, \<open>06-01-02\<close>, \<open>2006-01-02\<close>, \<open>06-01-02 15:04:05\<close>,
  \<open>2006-01-02 15:04:05\<close> and \<open>Mon, 02 Jan 2006 15:04:05\<close>.\<close>

definition layoutClock :: "chunk list" where
  "layoutClock = [stdHour, Lit '':'', stdZeroMinute]"

definition dateLayouts :: "chunk list list" where
  "dateLayouts =
     [[stdYear, Lit ''-'', stdZeroMonth, Lit ''-'', stdZeroDay],
      [stdLongYear, Lit ''-'', stdZeroMonth, Lit ''-'', stdZeroDay],
      [stdYear, Lit ''-'', stdZeroMonth, Lit ''-'', stdZeroDay, Lit '' '',
       stdHour, Lit '':'', stdZeroMinute, Lit '':'', stdZeroSecond],
      [stdLongYear, Lit ''-'', stdZeroMonth, Lit ''-'', stdZeroDay, Lit '' '',
       stdHour, Lit '':'', stdZeroMinute, Lit '':'', stdZeroSecond],
      [stdWeekDay, Lit '', '', stdZeroDay, Lit '' '', stdMonth, Lit '' '', stdLongYear, Lit '' '',
       stdHour, Lit '':'', stdZeroMinute, Lit '':'', stdZeroSecond]]"

section \<open>The parser\<close>

definition getMidnight :: "Time \<Rightarrow> Time" where
  "getMidnight t = Date (Year t) (Month t) (Day t) 0 0 0 0 (loc t)"

definition parseWeekday :: "string \<Rightarrow> error + int" where
  "parseWeekday weekdayStr =
     (if weekdayStr = ''sunday'' then Inr 0
      else if weekdayStr = ''monday'' then Inr 1
      else if weekdayStr = ''tuesday'' then Inr 2
      else if weekdayStr = ''wednesday'' then Inr 3
      else if weekdayStr = ''thursday'' then Inr 4
      else if weekdayStr = ''friday'' then Inr 5
      else if weekdayStr = ''saturday'' then Inr 6
      else Inl (ErrInvalidWeekday weekdayStr))"

definition parseLastWeekday :: "string \<Rightarrow> Time \<Rightarrow> error + Time" where
  "parseLastWeekday durationStr now =
     (case parseWeekday (TrimPrefix durationStr ''last '') of
        Inl err \<Rightarrow> Inl err
      | Inr weekday \<Rightarrow>
          (let daysAgo = Weekday now - weekday;
               daysAgo = (if daysAgo \<le> 0 then daysAgo + 7 else daysAgo)
           in Inr (getMidnight (AddDate now 0 0 (- daysAgo)))))"

definition parseUnixTimestamp :: "env \<Rightarrow> int \<Rightarrow> error + Time" where
  "parseUnixTimestamp e unixTime =
     (if unixTime > 9999999999
      then Inr (time_Unix e (unixTime div 1000) ((unixTime mod 1000) * 1000000))
      else Inr (time_Unix e unixTime 0))"

definition parseRelativeTime :: "env \<Rightarrow> string \<Rightarrow> Time \<Rightarrow> Time \<Rightarrow> bool \<Rightarrow> error + Time" where
  "parseRelativeTime e durationStr0 now startTime isPositive =
     (let durationStr = ToLower (TrimSpace durationStr0)
      in if durationStr = ''yesterday'' then Inr (getMidnight (AddDate now 0 0 (- 1)))
         else if durationStr = ''last week'' then Inr (getMidnight (AddDate now 0 0 (- 7)))
         else if durationStr = ''last month'' then Inr (getMidnight (AddDate now 0 (- 1) 0))
         else if durationStr = ''last year'' then Inr (getMidnight (AddDate now (- 1) 0 0))
         else if HasPrefix durationStr ''last '' then parseLastWeekday durationStr now
         else case ParseDuration e (RemoveBlanks durationStr) of
                None \<Rightarrow> Inl ErrParseDuration
              | Some duration \<Rightarrow>
                  if isPositive then
                    (if IsZero startTime then Inr (Add now duration)
                     else Inr (Add startTime duration))
                  else Inr (Add now (wrap64 (- duration))))"

definition ParseTime :: "env \<Rightarrow> string \<Rightarrow> Time \<Rightarrow> Time \<Rightarrow> error + Time" where
  "ParseTime e timeStr0 now startTime =
     (if timeStr0 = [] then (if IsZero startTime then Inr startTime else Inr now)
      else
        (let timeStr = TrimSpace timeStr0
         in case ParseInt timeStr of
              Some unixTime \<Rightarrow> parseUnixTimestamp e unixTime
            | None \<Rightarrow>
                (let lowerTimeStr = ToLower timeStr
                 in if HasPrefix lowerTimeStr ''last '' \<or> HasPrefix lowerTimeStr ''yesterday''
                    then parseRelativeTime e lowerTimeStr now startTime False
                    else if Contains timeStr '' ago'' then
                      (case convertCustomUnits (Replace1 timeStr '' ago'' []) of
                         Inl err \<Rightarrow> Inl (ErrConvertUnits err)
                       | Inr cleanStr \<Rightarrow>
                           parseRelativeTime e (RemoveSpace cleanStr) now startTime False)
                    else
                      (case convertCustomUnits timeStr of
                         Inl err \<Rightarrow> Inl (ErrConvertUnits err)
                       | Inr timeStr' \<Rightarrow>
                           if HasPrefix timeStr' ''+''
                           then parseRelativeTime e (drop 1 timeStr') now startTime True
                           else if HasPrefix timeStr' ''-''
                           then parseRelativeTime e (drop 1 timeStr') now startTime False
                           else (case ParseDuration e timeStr' of
                                   Some duration \<Rightarrow> Inr (Add now (wrap64 (- duration)))
                                 | None \<Rightarrow>
                                     (case time_Parse layoutClock timeStr' of
                                        Some t \<Rightarrow>
                                          Inr (Date (Year now) (Month now) (Day now)
                                                    (Hour t) (Minute t) 0 0 (loc now))
                                      | None \<Rightarrow>
                                          (case firstSome (\<lambda>layout. time_Parse layout timeStr')
                                                  dateLayouts of
                                             Some t \<Rightarrow> Inr t
                                           | None \<Rightarrow> Inl ErrInvalidTimeFormat)))))))"


section \<open>Test data\<close>

text \<open>
  An environment in UTC whose fractions of a duration unit are exact, and the reference
  instant \<open>fixedTime\<close> of the tests: Wednesday 10 December 2025, 15:30:45 UTC.
\<close>

definition env0 :: env where
  "env0 = \<lparr>Local = 0, frac = (\<lambda>f u sc. f * u div sc)\<rparr>"

definition fixedTime :: Time where
  "fixedTime = Date 2025 12 10 15 30 45 0 0"

section \<open>Notions of the specification\<close>

text \<open>The epoch seconds of a result, as \<open>t.Unix()\<close> reads them.\<close>

definition epochSeconds :: "error + Time \<Rightarrow> error + int" where
  "epochSeconds r = map_sum id unix r"


text \<open>
  \<open>kw\<close> is a substring of \<open>s\<close> when the case of the ASCII letters of \<open>s\<close> is ignored
  (the keywords are in lower case).
\<close>

definition containsFold :: "string \<Rightarrow> string \<Rightarrow> bool" where
  "containsFold s kw = Contains (map lower_ascii s) kw"

text \<open>The characters of ASCII.\<close>

definition ascii :: "char \<Rightarrow> bool" where
  "ascii c = ((of_char c :: nat) < 128)"






section \<open>Evaluation of the string functions\<close>

lemmas trim_eval =
  TrimSpace_def TrimLeftSeqs.simps space_len_def space_seqs_def HasPrefix_def




lemma fixedTime_eq: "fixedTime = \<lparr>unix = 1765380645, nsec = 0, loc = 0\<rparr>"
  by (simp add: fixedTime_def Date_def daysToYear_def monthStart_def isLeap_def daysBefore_def)

lemma convertCustomUnits_Nil: "convertCustomUnits [] = Inr []"
  by (simp add: convertCustomUnits_def reservedKeywords_def Contains_def HasPrefix_def
      timeUnitsToHours_def simpleTimeUnits_def tryConvertUnit_def tryConvertSimpleUnit_def
      tryPattern_def tryConvertShortForm_def)

lemma ParseDuration_Nil: "ParseDuration e [] = None"
  by (simp add: ParseDuration_def)

lemma time_Parse_Nil:
  "time_Parse layoutClock [] = None"
  "firstSome (\<lambda>layout. time_Parse layout []) dateLayouts = None"
  by (simp_all add: time_Parse_def layoutClock_def dateLayouts_def getnum_def shortDayNames_def)

text \<open>A string that starts and ends with a sign or a digit is not trimmed.\<close>

lemma space_len_0:
  assumes "list_all (\<lambda>p. p \<noteq> [] \<and> hd p \<noteq> c) seqs"
  shows "space_len seqs (c # cs) = 0"
proof -
  have "\<not> HasPrefix (c # cs) p" if "p \<in> set seqs" for p
  proof -
    from that assms have "p \<noteq> []" "hd p \<noteq> c" by (auto simp: list_all_iff)
    then show ?thesis by (cases p) (auto simp: HasPrefix_def)
  qed
  then have "find (HasPrefix (c # cs)) seqs = None"
    by (simp add: find_None_iff)
  then show ?thesis by (simp add: space_len_def)
qed

lemma space_heads:
  "list_all (\<lambda>p. p \<noteq> [] \<and> \<not> (43 \<le> (of_char (hd p) :: nat) \<and> (of_char (hd p) :: nat) \<le> 57)) space_seqs"
  "list_all (\<lambda>p. p \<noteq> [] \<and> \<not> (43 \<le> (of_char (hd p) :: nat) \<and> (of_char (hd p) :: nat) \<le> 57)) (map rev space_seqs)"
  by (simp_all add: space_seqs_def)

lemma plain_space_len:
  assumes "43 \<le> (of_char c :: nat)" "(of_char c :: nat) \<le> 57"
  shows "space_len space_seqs (c # cs) = 0" "space_len (map rev space_seqs) (c # cs) = 0"
proof -
  have "list_all (\<lambda>p. p \<noteq> [] \<and> hd p \<noteq> c) space_seqs"
    using space_heads(1) assms unfolding list_all_iff by blast
  then show "space_len space_seqs (c # cs) = 0" by (rule space_len_0)
  have "list_all (\<lambda>p. p \<noteq> [] \<and> hd p \<noteq> c) (map rev space_seqs)"
    using space_heads(2) assms unfolding list_all_iff by blast
  then show "space_len (map rev space_seqs) (c # cs) = 0" by (rule space_len_0)
qed

lemma TrimSpace_plain:
  assumes "s \<noteq> []" "43 \<le> (of_char (hd s) :: nat)" "(of_char (hd s) :: nat) \<le> 57"
    "43 \<le> (of_char (last s) :: nat)" "(of_char (last s) :: nat) \<le> 57"
  shows "TrimSpace s = s"
proof -
  obtain c cs where s: "s = c # cs" using assms(1) by (cases s) auto
  have 1: "TrimLeftSeqs space_seqs s = s"
    using assms plain_space_len(1)[of c cs] by (simp add: s TrimLeftSeqs.simps)
  obtain d ds where r: "rev s = d # ds" using assms(1) by (cases "rev s") auto
  then have "d = last s" using assms(1) hd_rev [of s] by simp
  then have 2: "TrimLeftSeqs (map rev space_seqs) (rev s) = rev s"
    using assms plain_space_len(2)[of d ds] by (simp add: r TrimLeftSeqs.simps)
  show ?thesis by (simp add: TrimSpace_def 1 2)
qed

lemma ParseInt_digits:
  assumes "ds \<noteq> []" "list_all isDigit ds" "sg = [] \<or> sg = ''+'' \<or> sg = ''-''"
  shows "ParseInt (sg @ ds) =
     (if sg = ''-'' then (if dec_val 0 ds \<le> 2 ^ 63 then Some (- int (dec_val 0 ds)) else None)
      else (if dec_val 0 ds < 2 ^ 63 then Some (int (dec_val 0 ds)) else None))"
proof -
  obtain d ds' where ds: "ds = d # ds'" using assms(1) by (cases ds) auto
  have d: "isDigit d" using assms(2) ds by simp
  then have "d \<noteq> CHR ''+''" "d \<noteq> CHR ''-''" by (auto simp: isDigit_def)
  then show ?thesis
    using assms(2,3) ds by (auto simp: ParseInt_def)
qed

lemma TrimSpace_digits:
  assumes "ds \<noteq> []" "list_all isDigit ds" "sg = [] \<or> sg = ''+'' \<or> sg = ''-''"
  shows "TrimSpace (sg @ ds) = sg @ ds"
proof (rule TrimSpace_plain)
  show "sg @ ds \<noteq> []" using assms(1) by simp
  have dl: "isDigit (last ds)" "isDigit (hd ds)"
    using assms(1,2) by (auto simp: list_all_iff)
  show "43 \<le> (of_char (hd (sg @ ds)) :: nat)" "(of_char (hd (sg @ ds)) :: nat) \<le> 57"
    using assms(3) dl by (auto simp: isDigit_def)
  show "43 \<le> (of_char (last (sg @ ds)) :: nat)" "(of_char (last (sg @ ds)) :: nat) \<le> 57"
    using assms(1) dl by (auto simp: isDigit_def)
qed

section \<open>The empty expression and white space\<close>

text \<open>A string of ASCII white space is trimmed to the empty string.\<close>

lemma space_len_ascii_space:
  assumes "c \<in> {CHR 0x09, CHR 0x0A, CHR 0x0B, CHR 0x0C, CHR 0x0D, CHR 0x20}"
  shows "space_len space_seqs (c # cs) = 1"
proof -
  have "c = CHR 0x09 \<or> c = CHR 0x0A \<or> c = CHR 0x0B \<or> c = CHR 0x0C \<or> c = CHR 0x0D \<or> c = CHR 0x20"
    using assms by simp
  then show ?thesis
    by (elim disjE) (simp_all add: space_len_def space_seqs_def HasPrefix_def)
qed

lemma TrimSpace_ascii_space:
  assumes "set s \<subseteq> {CHR 0x09, CHR 0x0A, CHR 0x0B, CHR 0x0C, CHR 0x0D, CHR 0x20}"
  shows "TrimSpace s = []"
proof -
  have "TrimLeftSeqs space_seqs s = []"
    using assms
  proof (induction s)
    case Nil
    then show ?case by (simp add: TrimLeftSeqs.simps)
  next
    case (Cons c cs)
    then have "space_len space_seqs (c # cs) = 1"
      using space_len_ascii_space [of c cs] by simp
    then have "TrimLeftSeqs space_seqs (c # cs) = TrimLeftSeqs space_seqs cs"
      by (subst TrimLeftSeqs.simps) simp
    then show ?case using Cons by simp
  qed
  then show ?thesis by (simp add: TrimSpace_def TrimLeftSeqs.simps)
qed


text \<open>
  Claim C9.  \<open>ParseTime\<close> of the empty string never fails: it returns its argument
  \<open>startTime\<close>, the zero instant, when that is the zero value, and \<open>now\<close> otherwise.
\<close>

theorem C9_ParseTime_empty:
  "(IsZero start \<longrightarrow> ParseTime e [] now start = Inr start) \<and>
   (\<not> IsZero start \<longrightarrow> ParseTime e [] now start = Inr now)"
  by (simp add: ParseTime_def)

theorem C9_ParseTime_empty_witness:
  "IsZero zeroTime \<and> ParseTime env0 [] fixedTime zeroTime = Inr zeroTime \<and>
   \<not> IsZero fixedTime \<and> ParseTime env0 [] fixedTime fixedTime = Inr fixedTime"
  using C9_ParseTime_empty [of zeroTime env0 fixedTime]
    C9_ParseTime_empty [of fixedTime env0 fixedTime]
  by (simp add: IsZero_def zeroTime_def fixedTime_eq)

text \<open>
  Claim C10.  The test for the empty string comes before the trimming: a non-empty
  input that consists of white space only is trimmed to the empty string, goes through
  the whole cascade and fails, with \<open>ErrInvalidTimeFormat\<close>; it is not resolved to the
  zero instant or to \<open>now\<close> as the empty string is.  By \<open>TrimSpace_ascii_space\<close>
  every non-empty string of blanks, tabs and line ends is such an input.
\<close>

theorem C10_whitespace_only:
  assumes "s \<noteq> []" and "TrimSpace s = []"
  shows "ParseTime e s now start = Inl ErrInvalidTimeFormat"
  using assms
  by (simp add: ParseTime_def ParseInt_def HasPrefix_def Contains_def convertCustomUnits_Nil
      ParseDuration_Nil time_Parse_Nil)

theorem C10_whitespace_only_witness:
  "'' '' \<noteq> [] \<and> TrimSpace '' '' = [] \<and>
   ParseTime env0 '' '' fixedTime zeroTime = Inl ErrInvalidTimeFormat"
  using C10_whitespace_only [of "'' ''" env0 fixedTime zeroTime]
  by (simp add: trim_eval)

section \<open>Unix timestamps\<close>

text \<open>
  Claim C2, as amended.  \<open>9999999999\<close> is read as seconds and resolves to the epoch
  second 9999999999; \<open>10000000000\<close> is read as 10000000000 milliseconds and resolves to
  the epoch second 10000000, for every \<open>now\<close> and \<open>startTime\<close>.
\<close>

theorem C2_timestamp_boundary:
  "epochSeconds (ParseTime e ''9999999999'' now start) = Inr 9999999999 \<and>
   epochSeconds (ParseTime e ''10000000000'' now start) = Inr 10000000"
  by (simp add: epochSeconds_def ParseTime_def trim_eval ParseInt_def isDigit_def digit_val_def
      parseUnixTimestamp_def time_Unix_def)

text \<open>
  The claim C2 as it was stated gives the epoch second 10 for \<open>10000000000\<close>; the
  program divides the milliseconds by 1000.
\<close>

theorem C2_timestamp_boundary_counterexample:
  "epochSeconds (ParseTime env0 ''10000000000'' fixedTime zeroTime) \<noteq> Inr 10"
  by (simp add: epochSeconds_def ParseTime_def trim_eval ParseInt_def isDigit_def digit_val_def
      parseUnixTimestamp_def time_Unix_def)

text \<open>
  Claim C4, as amended.  A bare integer, with or without a sign, that fits into 64 bits
  is a Unix timestamp: a value of at most 9999999999, and so every negative value, is
  read as seconds since the epoch; a value above 9999999999 is read as milliseconds
  and split into seconds and a remainder below one second.
\<close>

theorem C4_timestamp_threshold:
  assumes "ds \<noteq> []" and "list_all isDigit ds" and "sg = [] \<or> sg = ''+'' \<or> sg = ''-''"
    and "v = (if sg = ''-'' then - int (dec_val 0 ds) else int (dec_val 0 ds))"
    and "- (2 ^ 63) \<le> v" and "v < 2 ^ 63"
  shows "ParseTime e (sg @ ds) now start =
     Inr (if v \<le> 9999999999 then \<lparr>unix = v, nsec = 0, loc = Local e\<rparr>
          else \<lparr>unix = v div 1000, nsec = v mod 1000 * 1000000, loc = Local e\<rparr>)"
proof -
  have pi: "ParseInt (sg @ ds) = Some v"
    using ParseInt_digits [OF assms(1-3)] assms(4-6) by (auto split: if_splits)
  have m: "v mod 1000 * 1000000 div 1000000000 = 0"
    "v mod 1000 * 1000000 mod 1000000000 = v mod 1000 * 1000000"
    by simp_all
  show ?thesis
    using assms(1) by (simp add: ParseTime_def TrimSpace_digits [OF assms(1-3)] pi
        parseUnixTimestamp_def time_Unix_def m)
qed

theorem C4_timestamp_threshold_witness:
  "ParseTime env0 ''1416434697123'' fixedTime zeroTime =
     Inr \<lparr>unix = 1416434697, nsec = 123000000, loc = 0\<rparr> \<and>
   ParseTime env0 ''-1'' fixedTime zeroTime = Inr \<lparr>unix = - 1, nsec = 0, loc = 0\<rparr>"
  using C4_timestamp_threshold [of "''1416434697123''" "[]" 1416434697123 env0 fixedTime zeroTime]
    C4_timestamp_threshold [of "''1''" "''-''" "- 1" env0 fixedTime zeroTime]
  by (simp add: isDigit_def digit_val_def env0_def)

text \<open>
  The claim C4 as it was stated goes by the magnitude: \<open>-10000000000\<close> would be
  milliseconds.  The program compares the signed value and reads it as seconds.
\<close>

theorem C4_timestamp_threshold_counterexample:
  "ParseTime env0 ''-10000000000'' fixedTime zeroTime =
     Inr \<lparr>unix = - 10000000000, nsec = 0, loc = 0\<rparr> \<and>
   ParseTime env0 ''-10000000000'' fixedTime zeroTime \<noteq>
     Inr \<lparr>unix = - 10000000000 div 1000, nsec = - 10000000000 mod 1000 * 1000000, loc = 0\<rparr>"
  by (simp add: ParseTime_def trim_eval ParseInt_def isDigit_def digit_val_def
      parseUnixTimestamp_def time_Unix_def env0_def)

section \<open>Ranges\<close>
















section \<open>Errors\<close>








section \<open>The keyword guard\<close>



lemma HasPrefix_iff: "HasPrefix s p \<longleftrightarrow> (\<exists>post. s = p @ post)"
  unfolding HasPrefix_def
  by (metis append_eq_conv_conj append_take_drop_id)

lemma Contains_append: "Contains (pre @ p @ post) p"
proof (induction pre)
  case Nil
  have "HasPrefix (p @ post) p" by (simp add: HasPrefix_iff)
  then show ?case by (cases "p @ post") (auto simp: Contains_def HasPrefix_def)
next
  case (Cons c pre)
  then show ?case by (auto simp: Contains_def)
qed

lemma Contains_split: "Contains s p \<Longrightarrow> \<exists>pre post. s = pre @ p @ post"
proof (induction s)
  case Nil
  then show ?case by (auto simp: Contains_def split: if_splits)
next
  case (Cons c cs)
  show ?case
  proof (cases "HasPrefix (c # cs) p")
    case True
    then obtain post where "c # cs = p @ post" using HasPrefix_iff by blast
    then have "c # cs = [] @ p @ post" by simp
    then show ?thesis by blast
  next
    case False
    then have "Contains cs p" using Cons.prems by (auto simp: Contains_def)
    then obtain pre post where "cs = pre @ p @ post" using Cons.IH by blast
    then have "c # cs = (c # pre) @ p @ post" by simp
    then show ?thesis by blast
  qed
qed

lemma Contains_iff: "Contains s p \<longleftrightarrow> (\<exists>pre post. s = pre @ p @ post)"
  using Contains_split Contains_append by blast

text \<open>One step of \<open>ToLower\<close>, and what it does to a string around ASCII characters.\<close>

lemma ToLower_step:
  "ToLower (x # r) =
     (if x = CHR 0xE2 \<and> take 2 r = [CHR 0x84, CHR 0xAA] then CHR ''k'' # ToLower (drop 2 r)
      else if x = CHR 0xC4 \<and> take 1 r = [CHR 0xB0] then CHR ''i'' # ToLower (drop 1 r)
      else if x = CHR 0xCE \<and> take 1 r = [CHR 0x9C] then CHR 0xCE # CHR 0xBC # ToLower (drop 1 r)
      else lower_ascii x # ToLower r)"
proof (cases r)
  case Nil
  then show ?thesis by simp
next
  case (Cons b r1)
  show ?thesis
  proof (cases r1)
    case Nil
    then show ?thesis using Cons by (simp add: lower_ascii_def)
  next
    case (Cons c r2)
    then show ?thesis using \<open>r = b # r1\<close> by simp
  qed
qed


lemma ToLower_k:
  "take 2 r = [CHR 0x84, CHR 0xAA] \<Longrightarrow> ToLower (CHR 0xE2 # r) = CHR ''k'' # ToLower (drop 2 r)"
  by (subst ToLower_step) simp

lemma ToLower_i:
  "take 1 r = [CHR 0xB0] \<Longrightarrow> ToLower (CHR 0xC4 # r) = CHR ''i'' # ToLower (drop 1 r)"
  by (subst ToLower_step) simp

lemma ToLower_m:
  "take 1 r = [CHR 0x9C] \<Longrightarrow> ToLower (CHR 0xCE # r) = CHR 0xCE # CHR 0xBC # ToLower (drop 1 r)"
  by (subst ToLower_step) simp

lemma ToLower_p:
  "\<not> (x = CHR 0xE2 \<and> take 2 r = [CHR 0x84, CHR 0xAA]) \<Longrightarrow>
   \<not> (x = CHR 0xC4 \<and> take 1 r = [CHR 0xB0]) \<Longrightarrow>
   \<not> (x = CHR 0xCE \<and> take 1 r = [CHR 0x9C]) \<Longrightarrow>
   ToLower (x # r) = lower_ascii x # ToLower r"
  by (subst ToLower_step) auto

lemma char_of_eq_iff2: "(c = char_of (n :: nat)) = (take_bit 8 n = of_char c)"
  using char_of_eq_iff [of n c] by auto


lemma ascii_not_special:
  assumes "ascii a"
  shows "a \<noteq> CHR 0xE2" "a \<noteq> CHR 0xC4" "a \<noteq> CHR 0xCE" "a \<noteq> CHR 0x84" "a \<noteq> CHR 0xAA"
    "a \<noteq> CHR 0xB0" "a \<noteq> CHR 0x9C"
  using assms by (auto simp: ascii_def)

lemma ToLower_ascii_append:
  "list_all ascii t \<Longrightarrow> ToLower (t @ post) = map lower_ascii t @ ToLower post"
proof (induction t)
  case Nil
  then show ?case by simp
next
  case (Cons c t)
  then have "ascii c" by simp
  then have "ToLower (c # (t @ post)) = lower_ascii c # ToLower (t @ post)"
    using ascii_not_special [of c] by (intro ToLower_p) simp_all
  then show ?case using Cons by simp
qed

lemma ToLower_suffix:
  assumes "ascii a"
  shows "\<exists>pre'. ToLower (pre @ a # s) = pre' @ ToLower (a # s)"
proof (induction pre rule: length_induct)
  case (1 pre)
  show ?case
  proof (cases pre)
    case Nil
    then show ?thesis by simp
  next
    case (Cons x r')
    let ?r = "r' @ a # s"
    have na: "a \<noteq> CHR 0x84" "a \<noteq> CHR 0xAA" "a \<noteq> CHR 0xB0" "a \<noteq> CHR 0x9C"
      using ascii_not_special [OF assms] by simp_all
    consider (k) "x = CHR 0xE2 \<and> take 2 ?r = [CHR 0x84, CHR 0xAA]"
      | (i) "\<not> (x = CHR 0xE2 \<and> take 2 ?r = [CHR 0x84, CHR 0xAA])"
            "x = CHR 0xC4 \<and> take 1 ?r = [CHR 0xB0]"
      | (m) "\<not> (x = CHR 0xE2 \<and> take 2 ?r = [CHR 0x84, CHR 0xAA])"
            "\<not> (x = CHR 0xC4 \<and> take 1 ?r = [CHR 0xB0])"
            "x = CHR 0xCE \<and> take 1 ?r = [CHR 0x9C]"
      | (p) "\<not> (x = CHR 0xE2 \<and> take 2 ?r = [CHR 0x84, CHR 0xAA])"
            "\<not> (x = CHR 0xC4 \<and> take 1 ?r = [CHR 0xB0])"
            "\<not> (x = CHR 0xCE \<and> take 1 ?r = [CHR 0x9C])"
      by blast
    then show ?thesis
    proof cases
      case k
      then have len: "length r' \<ge> 2"
        using na by (cases r'; cases "tl r'") auto
      then have d: "drop 2 ?r = drop 2 r' @ a # s" by simp
      have "length (drop 2 r') < length pre" using Cons by simp
      then obtain q where "ToLower (drop 2 r' @ a # s) = q @ ToLower (a # s)"
        using 1 by blast
      moreover have "ToLower (x # ?r) = CHR ''k'' # ToLower (drop 2 ?r)"
        using k ToLower_k [of ?r] by blast
      ultimately have "ToLower (pre @ a # s) = (CHR ''k'' # q) @ ToLower (a # s)"
        using d Cons by simp
      then show ?thesis by blast
    next
      case i
      then have "r' \<noteq> []" using na by (cases r') auto
      then have d: "drop 1 ?r = drop 1 r' @ a # s" by (cases r') auto
      have "length (drop 1 r') < length pre" using Cons by simp
      then obtain q where "ToLower (drop 1 r' @ a # s) = q @ ToLower (a # s)"
        using 1 by blast
      moreover have "ToLower (x # ?r) = CHR ''i'' # ToLower (drop 1 ?r)"
        using i ToLower_i [of ?r] by blast
      ultimately have "ToLower (pre @ a # s) = (CHR ''i'' # q) @ ToLower (a # s)"
        using d Cons by simp
      then show ?thesis by blast
    next
      case m
      then have "r' \<noteq> []" using na by (cases r') auto
      then have d: "drop 1 ?r = drop 1 r' @ a # s" by (cases r') auto
      have "length (drop 1 r') < length pre" using Cons by simp
      then obtain q where "ToLower (drop 1 r' @ a # s) = q @ ToLower (a # s)"
        using 1 by blast
      moreover have "ToLower (x # ?r) = CHR 0xCE # CHR 0xBC # ToLower (drop 1 ?r)"
        using m ToLower_m [of ?r] by blast
      ultimately have "ToLower (pre @ a # s) = (CHR 0xCE # CHR 0xBC # q) @ ToLower (a # s)"
        using d Cons by simp
      then show ?thesis by blast
    next
      case p
      have "length r' < length pre" using Cons by simp
      then obtain q where "ToLower (r' @ a # s) = q @ ToLower (a # s)"
        using 1 by blast
      moreover have "ToLower (x # ?r) = lower_ascii x # ToLower ?r"
        using p by (rule ToLower_p)
      ultimately have "ToLower (pre @ a # s) = (lower_ascii x # q) @ ToLower (a # s)"
        using Cons by simp
      then show ?thesis by blast
    qed
  qed
qed

lemma lower_ascii_ascii: "ascii (lower_ascii c) \<Longrightarrow> ascii c"
  by (auto simp: lower_ascii_def ascii_def split: if_splits)

lemma containsFold_ToLower:
  assumes "containsFold s kw" "kw \<noteq> []" "list_all ascii kw"
  shows "Contains (ToLower s) kw"
proof -
  obtain pre post where sp: "map lower_ascii s = pre @ kw @ post"
    using assms(1) Contains_split unfolding containsFold_def by blast
  define t where "t = take (length kw) (drop (length pre) s)"
  define p0 where "p0 = take (length pre) s"
  define q0 where "q0 = drop (length pre + length kw) s"
  have len: "length s = length pre + length kw + length post"
    using sp by (metis length_append length_map add.assoc)
  have s: "s = p0 @ t @ q0"
    unfolding p0_def t_def q0_def
    by (metis append_take_drop_id drop_drop add.commute)
  have tk: "map lower_ascii t = kw"
  proof -
    have "map lower_ascii t = take (length kw) (drop (length pre) (map lower_ascii s))"
      by (simp add: t_def take_map drop_map)
    then show ?thesis by (simp add: sp)
  qed
  then have "list_all ascii (map lower_ascii t)" using assms(3) by simp
  then have ta: "list_all ascii t"
    by (auto simp: list_all_iff dest: lower_ascii_ascii)
  have "t \<noteq> []" using tk assms(2) by auto
  then obtain a t' where t: "t = a # t'" by (cases t) auto
  then have "ascii a" using ta by simp
  then obtain q where "ToLower (p0 @ a # (t' @ q0)) = q @ ToLower (a # (t' @ q0))"
    using ToLower_suffix by blast
  then have "ToLower s = q @ ToLower (t @ q0)" using s t by simp
  then have "ToLower s = q @ kw @ ToLower q0"
    using ToLower_ascii_append [OF ta] tk by simp
  then show ?thesis using Contains_append by simp
qed

lemma reservedKeywords_ascii:
  "list_all (\<lambda>kw. kw \<noteq> [] \<and> list_all ascii kw) reservedKeywords"
  by (simp add: reservedKeywords_def ascii_def)

text \<open>
  Claim C6.  A string that contains a reserved keyword, whatever the case of its
  letters, is returned by \<open>convertCustomUnits\<close> as it is, also when it holds a number
  and a unit.
\<close>

theorem C6_keyword_guard:
  assumes "kw \<in> set reservedKeywords" and "containsFold s kw"
  shows "convertCustomUnits s = Inr s"
proof -
  have "kw \<noteq> []" "list_all ascii kw"
    using assms(1) reservedKeywords_ascii by (auto simp: list_all_iff)
  then have "Contains (ToLower s) kw"
    using assms(2) containsFold_ToLower by blast
  then have "list_ex (Contains (ToLower s)) reservedKeywords"
    using assms(1) by (auto simp: list_ex_iff)
  then show ?thesis by (simp add: convertCustomUnits_def)
qed

theorem C6_keyword_guard_witness:
  "''monday'' \<in> set reservedKeywords \<and> containsFold ''2 days before MONDAY'' ''monday'' \<and>
   convertCustomUnits ''2 days before MONDAY'' = Inr ''2 days before MONDAY''"
  using C6_keyword_guard [of "''monday''" "''2 days before MONDAY''"]
  by (simp add: reservedKeywords_def containsFold_def Contains_def HasPrefix_def lower_ascii_def
      char_of_eq_iff char_of_eq_iff2)

section \<open>Normalization of its own output\<close>














section \<open>The last weekday\<close>
































end
